theory Spec2Isabelle
  imports Complex_Main "HOL-Library.Sublist"
begin

section \<open>Values of the recipe catalogue\<close>

text \<open>
  The service stores JSON documents in three collections (\<open>cuisines\<close>, \<open>tags\<close>,
  \<open>recipes\<close>). A JSON number is a finite decimal, so it is modelled as a rational.
  A JavaScript string is modelled as a list of characters with code points below 256.
\<close>

type_synonym js_number = rat

text \<open>A JSON value. An object is the list of its properties, each key once.\<close>

datatype json =
    JNull
  | JBool bool
  | JNum js_number
  | JStr string
  | JArr "json list"
  | JObj "(string \<times> json) list"

text \<open>
  \<open>new ObjectId(s)\<close> of the driver: a string is accepted when it consists of 24
  hexadecimal digits, anything else raises \<open>BSONError\<close>. Two identifiers are equal
  when their bytes are, so the digits are kept in lower case.
\<close>

datatype ObjectId = ObjectId string


text \<open>ASCII letters in lower case; every other character is left as it is.\<close>

definition to_lower :: "char \<Rightarrow> char" where
  "to_lower c =
     (case map_of (zip ''ABCDEFGHIJKLMNOPQRSTUVWXYZ'' ''abcdefghijklmnopqrstuvwxyz'') c of
        None \<Rightarrow> c
      | Some l \<Rightarrow> l)"

definition is_hex_digit :: "char \<Rightarrow> bool" where
  "is_hex_digit c = (c \<in> set ''0123456789abcdefABCDEF'')"

definition ObjectId_parse :: "string \<Rightarrow> ObjectId option" where
  "ObjectId_parse s =
     (if length s = 24 \<and> list_all is_hex_digit s then Some (ObjectId (map to_lower s))
      else None)"

text \<open>
  A cuisine document has an identifier, a name and whatever other fields the collection
  gives it, kept in \<open>cuisine_more\<close>. The cuisine inside a recipe has the same shape; the
  snapshot \<open>{_id, name}\<close> is the one without other fields.
\<close>

record cuisine_doc =
  cuisine_id :: ObjectId
  cuisine_name :: string
  cuisine_more :: "(string \<times> json) list"

record tag_doc =
  tag_id :: ObjectId
  tag_name :: string

record ingredient =
  ing_name :: string
  ing_quantity :: string
  ing_unit :: string

record review =
  review_id :: ObjectId
  review_user :: string
  review_rating :: js_number
  review_comment :: string
  review_date :: nat

text \<open>
  A stored recipe. Every route that inserts a recipe sets its identifier, cuisine and
  tags; the other fields are stored as they come and are \<open>None\<close> when the inserted object
  did not have them. \<open>rcp_reviews\<close> is absent until the first review is pushed.
\<close>

record recipe_doc =
  rcp_id :: ObjectId
  rcp_name :: "string option"
  rcp_cuisine :: cuisine_doc
  rcp_prepTime :: "js_number option"
  rcp_cookTime :: "js_number option"
  rcp_servings :: "js_number option"
  rcp_ingredients :: "ingredient list option"
  rcp_instructions :: "string list option"
  rcp_tags :: "tag_doc list"
  rcp_reviews :: "review list option"

record database =
  db_cuisines :: "cuisine_doc list"
  db_tags :: "tag_doc list"
  db_recipes :: "recipe_doc list"

section \<open>The recipe validator\<close>

text \<open>
  The body of a create or update request. Every field may be absent (\<open>undefined\<close>
  after destructuring); a present field has the type of the data model.
\<close>

record recipe_request =
  req_name :: "string option"
  req_cuisine :: "string option"
  req_prepTime :: "js_number option"
  req_cookTime :: "js_number option"
  req_servings :: "js_number option"
  req_ingredients :: "ingredient list option"
  req_instructions :: "string list option"
  req_tags :: "string list option"

text \<open>
  JavaScript truthiness, per type: \<open>undefined\<close>, the empty string and the number 0 are
  falsy; every array, the empty one too, is truthy.
\<close>

definition truthy_string :: "string option \<Rightarrow> bool" where
  "truthy_string v = (case v of None \<Rightarrow> False | Some s \<Rightarrow> s \<noteq> [])"

definition truthy_number :: "js_number option \<Rightarrow> bool" where
  "truthy_number v = (case v of None \<Rightarrow> False | Some n \<Rightarrow> n \<noteq> 0)"

definition truthy_array :: "'a list option \<Rightarrow> bool" where
  "truthy_array v = (case v of None \<Rightarrow> False | Some _ \<Rightarrow> True)"

text \<open>The record that \<open>validateRecipe\<close> builds on success (it has no \<open>_id\<close>).\<close>

record new_recipe =
  nr_name :: string
  nr_cuisine :: cuisine_doc
  nr_prepTime :: js_number
  nr_cookTime :: js_number
  nr_servings :: js_number
  nr_ingredients :: "ingredient list"
  nr_instructions :: "string list"
  nr_tags :: "tag_doc list"

datatype validation = Failure string | Success new_recipe

text \<open>\<open>db.collection('cuisines').findOne({name: cuisine})\<close>: the first document of that name.\<close>

definition findOne_cuisine :: "database \<Rightarrow> string \<Rightarrow> cuisine_doc option" where
  "findOne_cuisine db c = find (\<lambda>d. cuisine_name d = c) (db_cuisines db)"

text \<open>
  \<open>db.collection('tags').find({name: {$in: tags}}).toArray()\<close>: the documents whose name
  is one of \<open>tags\<close>, in the order of the collection.
\<close>

definition find_tags_in :: "database \<Rightarrow> string list \<Rightarrow> tag_doc list" where
  "find_tags_in db names = filter (\<lambda>d. tag_name d \<in> set names) (db_tags db)"

definition fields_present :: "recipe_request \<Rightarrow> bool" where
  "fields_present r =
     (truthy_string (req_name r) \<and> truthy_string (req_cuisine r)
      \<and> truthy_array (req_ingredients r) \<and> truthy_array (req_instructions r)
      \<and> truthy_array (req_tags r) \<and> truthy_number (req_prepTime r)
      \<and> truthy_number (req_cookTime r) \<and> truthy_number (req_servings r))"

definition validateRecipe :: "database \<Rightarrow> recipe_request \<Rightarrow> validation" where
  "validateRecipe db r =
     (if \<not> fields_present r then Failure ''Missing fields''
      else
        (case findOne_cuisine db (the (req_cuisine r)) of
           None \<Rightarrow> Failure ''Invalid cuisine''
         | Some cuisineDoc \<Rightarrow>
             (let tagDocs = find_tags_in db (the (req_tags r))
              in if length tagDocs \<noteq> length (the (req_tags r))
                 then Failure ''One or more tags is invalid''
                 else Success
                   \<lparr> nr_name = the (req_name r),
                     nr_cuisine = \<lparr> cuisine_id = cuisine_id cuisineDoc,
                                    cuisine_name = cuisine_name cuisineDoc,
                                    cuisine_more = [] \<rparr>,
                     nr_prepTime = the (req_prepTime r),
                     nr_cookTime = the (req_cookTime r),
                     nr_servings = the (req_servings r),
                     nr_ingredients = the (req_ingredients r),
                     nr_instructions = the (req_instructions r),
                     nr_tags = tagDocs \<rparr>)))"

section \<open>The filter builder\<close>

text \<open>
  \<open>s.split(",")\<close>: the pieces between commas; a string without a comma is one piece and
  a trailing comma gives a last, empty piece.
\<close>

fun split_comma :: "string \<Rightarrow> string list" where
  "split_comma [] = [[]]"
| "split_comma (c # cs) =
     (if c = CHR '','' then [] # split_comma cs
      else (case split_comma cs of [] \<Rightarrow> [[c]] | w # ws \<Rightarrow> (c # w) # ws))"

text \<open>
  Regular expressions. The search patterns are handed to the regular-expression engine
  as they come from the query string. The model covers the patterns made of ASCII
  characters that are not syntax characters, and the dot; \<open>RegExp_compile\<close> is \<open>None\<close>
  on every other pattern, which says that the model does not determine the match.
  The syntax characters are \<open>\ ^ $ . * + ? ( ) [ ] { } |\<close>.
\<close>

datatype re_atom = Lit char | AnyChar

definition is_syntax_char :: "char \<Rightarrow> bool" where
  "is_syntax_char c =
     ((of_char c :: nat) \<in> set [92, 94, 36, 46, 42, 43, 63, 40, 41, 91, 93, 123, 125, 124])"

definition is_plain_char :: "char \<Rightarrow> bool" where
  "is_plain_char c = ((of_char c :: nat) < 128 \<and> \<not> is_syntax_char c)"

fun RegExp_compile :: "string \<Rightarrow> re_atom list option" where
  "RegExp_compile [] = Some []"
| "RegExp_compile (c # cs) =
     (if c = CHR ''.'' then map_option (Cons AnyChar) (RegExp_compile cs)
      else if is_plain_char c then map_option (Cons (Lit c)) (RegExp_compile cs)
      else None)"

text \<open>
  With the flag \<open>i\<close> a literal matches a character of the same letter in either case;
  the dot matches every character but the line feed.
\<close>

fun atom_matches :: "re_atom \<Rightarrow> char \<Rightarrow> bool" where
  "atom_matches (Lit a) c = (to_lower a = to_lower c)"
| "atom_matches AnyChar c = (c \<noteq> CHR 0x0A)"

fun match_here :: "re_atom list \<Rightarrow> string \<Rightarrow> bool" where
  "match_here [] s = True"
| "match_here (a # as) [] = False"
| "match_here (a # as) (c # cs) = (atom_matches a c \<and> match_here as cs)"

text \<open>An unanchored pattern matches when it matches at some position of the subject.\<close>

fun re_search :: "re_atom list \<Rightarrow> string \<Rightarrow> bool" where
  "re_search as [] = match_here as []"
| "re_search as (c # cs) = (match_here as (c # cs) \<or> re_search as cs)"

definition regex_test_i :: "string \<Rightarrow> string \<Rightarrow> bool option" where
  "regex_test_i pattern subject = map_option (\<lambda>as. re_search as subject) (RegExp_compile pattern)"

text \<open>
  The query document given to \<open>find\<close>. Each key of the JavaScript object is a field
  that is \<open>None\<close> when the key was not set:
  \<open>name: {$regex: p, $options: "i"}\<close>, \<open>"cuisine.name": {$in: xs}\<close>,
  \<open>"tags.name": {$in: xs}\<close> and \<open>"ingredients.name": {$all: ops}\<close>, where an operand of
  \<open>$all\<close> is a case-insensitive \<open>RegExp\<close> object or a plain string.
\<close>

datatype all_operand = RegExp_i string | Str string

record criteria =
  crit_name :: "string option"
  crit_cuisine_name :: "string list option"
  crit_tags_name :: "string list option"
  crit_ingredients_name :: "all_operand list option"

definition empty_criteria :: criteria where
  "empty_criteria =
     \<lparr> crit_name = None, crit_cuisine_name = None, crit_tags_name = None,
       crit_ingredients_name = None \<rparr>"

text \<open>
  The structured search route \<open>GET /recipes/search\<close>: \<open>name\<close>, \<open>tags\<close> and
  \<open>ingredients\<close> are the query-string parameters, absent or a string.
\<close>

definition search_criteria :: "string option \<Rightarrow> string option \<Rightarrow> string option \<Rightarrow> criteria" where
  "search_criteria name tags ingredients =
     \<lparr> crit_name = (if truthy_string name then name else None),
       crit_cuisine_name = None,
       crit_tags_name = (if truthy_string tags then Some (split_comma (the tags)) else None),
       crit_ingredients_name =
         (if truthy_string ingredients then Some (map RegExp_i (split_comma (the ingredients)))
          else None) \<rparr>"

text \<open>
  What the store does with a query document. A dotted path into an array of
  sub-documents stands for the values of that field in the elements; \<open>$in\<close> holds when
  one of these values is in the list, \<open>$all\<close> when the operand list is not empty and
  every operand matches one of the values (a string by equality, a regular expression by
  search). The result is \<open>None\<close> when a pattern is outside the modelled fragment.
\<close>

definition operand_matches :: "string list \<Rightarrow> all_operand \<Rightarrow> bool option" where
  "operand_matches vals operand =
     (case operand of
        Str s \<Rightarrow> Some (s \<in> set vals)
      | RegExp_i p \<Rightarrow> map_option (\<lambda>as. list_ex (re_search as) vals) (RegExp_compile p))"

definition all_matches :: "all_operand list \<Rightarrow> string list \<Rightarrow> bool option" where
  "all_matches ops vals =
     map_option (\<lambda>bs. ops \<noteq> [] \<and> list_all id bs) (those (map (operand_matches vals) ops))"

definition in_matches :: "string list \<Rightarrow> string list \<Rightarrow> bool" where
  "in_matches xs vals = list_ex (\<lambda>v. v \<in> set xs) vals"

definition and_option :: "bool option \<Rightarrow> bool option \<Rightarrow> bool option" where
  "and_option a b = (case a of None \<Rightarrow> None | Some x \<Rightarrow> map_option (\<lambda>y. x \<and> y) b)"

text \<open>A recipe without a name is matched by no pattern.\<close>

definition name_clause :: "criteria \<Rightarrow> recipe_doc \<Rightarrow> bool option" where
  "name_clause c r =
     (case crit_name c of
        None \<Rightarrow> Some True
      | Some p \<Rightarrow>
          (case rcp_name r of
             None \<Rightarrow> map_option (\<lambda>as. False) (RegExp_compile p)
           | Some n \<Rightarrow> regex_test_i p n))"

definition cuisine_clause :: "criteria \<Rightarrow> recipe_doc \<Rightarrow> bool option" where
  "cuisine_clause c r =
     (case crit_cuisine_name c of None \<Rightarrow> Some True
      | Some xs \<Rightarrow> Some (in_matches xs [cuisine_name (rcp_cuisine r)]))"

definition tags_clause :: "criteria \<Rightarrow> recipe_doc \<Rightarrow> bool option" where
  "tags_clause c r =
     (case crit_tags_name c of None \<Rightarrow> Some True
      | Some xs \<Rightarrow> Some (in_matches xs (map tag_name (rcp_tags r))))"

text \<open>The values of \<open>ingredients.name\<close> in a recipe; there is none without ingredients.\<close>

definition ingredient_names :: "recipe_doc \<Rightarrow> string list" where
  "ingredient_names r =
     (case rcp_ingredients r of None \<Rightarrow> [] | Some xs \<Rightarrow> map ing_name xs)"

definition ingredients_clause :: "criteria \<Rightarrow> recipe_doc \<Rightarrow> bool option" where
  "ingredients_clause c r =
     (case crit_ingredients_name c of None \<Rightarrow> Some True
      | Some ops \<Rightarrow> all_matches ops (ingredient_names r))"

definition criteria_matches :: "criteria \<Rightarrow> recipe_doc \<Rightarrow> bool option" where
  "criteria_matches c r =
     and_option (name_clause c r)
       (and_option (cuisine_clause c r) (and_option (tags_clause c r) (ingredients_clause c r)))"

text \<open>
  The property the specification gives for one ingredient name: the recipe's ingredient
  name contains it as a substring, letter case ignored.
\<close>

definition contains_ci :: "string \<Rightarrow> string \<Rightarrow> bool" where
  "contains_ci hay needle = sublist (map to_lower needle) (map to_lower hay)"

text \<open>
  The property the specification gives for the ingredient names: for every supplied
  name, some ingredient of the recipe has a name that contains it.
\<close>

definition spec_ingredients_match :: "string list \<Rightarrow> recipe_doc \<Rightarrow> bool" where
  "spec_ingredients_match names r =
     list_all (\<lambda>n. list_ex (\<lambda>v. contains_ci v n) (ingredient_names r)) names"

section \<open>The translator of natural-language queries\<close>















section \<open>The routes that read and write recipes\<close>

text \<open>
  A route takes the database and the request and gives the database after the request
  and the outcome of the handler: the response it sends, with its status code, or
  \<open>Rejected\<close> when an exception that the handler does not catch rejects its promise. What
  the client gets after a rejection is decided by the framework and not by the handler.
\<close>

datatype body =
    Error string
  | Message string
  | Recipe recipe_doc
  | Created string ObjectId
  | RecipeId ObjectId
  | Text string

datatype outcome = Responded nat body | Rejected

definition findOne_recipe :: "database \<Rightarrow> ObjectId \<Rightarrow> recipe_doc option" where
  "findOne_recipe db oid = find (\<lambda>r. rcp_id r = oid) (db_recipes db)"

text \<open>\<open>updateOne\<close> and \<open>deleteOne\<close> act on the first document that matches.\<close>

fun update_first :: "('a \<Rightarrow> bool) \<Rightarrow> ('a \<Rightarrow> 'a) \<Rightarrow> 'a list \<Rightarrow> 'a list" where
  "update_first P f [] = []"
| "update_first P f (x # xs) = (if P x then f x # xs else x # update_first P f xs)"

fun delete_first :: "('a \<Rightarrow> bool) \<Rightarrow> 'a list \<Rightarrow> 'a list" where
  "delete_first P [] = []"
| "delete_first P (x # xs) = (if P x then xs else x # delete_first P xs)"

text \<open>
  \<open>GET /recipes/detail\<close>. Without an \<open>id\<close> parameter \<open>new ObjectId(undefined)\<close> makes a
  new identifier, \<open>fresh\<close>.
\<close>

definition get_recipes_detail :: "database \<Rightarrow> ObjectId \<Rightarrow> string option \<Rightarrow> outcome" where
  "get_recipes_detail db fresh recipeId =
     (case (case recipeId of None \<Rightarrow> Some fresh | Some s \<Rightarrow> ObjectId_parse s) of
        None \<Rightarrow> Responded 400 (Error ''Invalid recipe ID format.'')
      | Some oid \<Rightarrow>
          (case findOne_recipe db oid of
             None \<Rightarrow> Responded 404 (Error ''recipe not found.'')
           | Some recipe \<Rightarrow> Responded 200 (Recipe recipe)))"

definition stored_recipe :: "ObjectId \<Rightarrow> new_recipe \<Rightarrow> recipe_doc" where
  "stored_recipe oid n =
     \<lparr> rcp_id = oid, rcp_name = Some (nr_name n), rcp_cuisine = nr_cuisine n,
       rcp_prepTime = Some (nr_prepTime n), rcp_cookTime = Some (nr_cookTime n),
       rcp_servings = Some (nr_servings n), rcp_ingredients = Some (nr_ingredients n),
       rcp_instructions = Some (nr_instructions n), rcp_tags = nr_tags n,
       rcp_reviews = None \<rparr>"

text \<open>
  \<open>POST /recipes/create\<close> repeats the checks of \<open>validateRecipe\<close> inline, with its own
  messages, and inserts the record under a new identifier.
\<close>

definition post_recipes_create :: "database \<Rightarrow> ObjectId \<Rightarrow> recipe_request \<Rightarrow> database \<times> outcome" where
  "post_recipes_create db fresh r =
     (if \<not> fields_present r then (db, Responded 400 (Error ''Missing required fields''))
      else
        (case findOne_cuisine db (the (req_cuisine r)) of
           None \<Rightarrow> (db, Responded 400 (Error ''Error. Cuisine not found''))
         | Some cuisineDoc \<Rightarrow>
             (let tagDocs = find_tags_in db (the (req_tags r))
              in if length tagDocs \<noteq> length (the (req_tags r))
                 then (db, Responded 400 (Error ''One or more tags is invalid''))
                 else
                   (db\<lparr>db_recipes := db_recipes db @
                        [\<lparr> rcp_id = fresh, rcp_name = req_name r,
                           rcp_cuisine = \<lparr> cuisine_id = cuisine_id cuisineDoc,
                                           cuisine_name = cuisine_name cuisineDoc,
                                           cuisine_more = [] \<rparr>,
                           rcp_prepTime = req_prepTime r,
                           rcp_cookTime = req_cookTime r,
                           rcp_servings = req_servings r,
                           rcp_ingredients = req_ingredients r,
                           rcp_instructions = req_instructions r,
                           rcp_tags = tagDocs, rcp_reviews = None \<rparr>]\<rparr>,
                    Responded 201 (Created ''Recipe created'' fresh)))))"

text \<open>The update \<open>{$set: newRecipe}\<close>: the eight fields are replaced, the rest is kept.\<close>

definition set_recipe :: "new_recipe \<Rightarrow> recipe_doc \<Rightarrow> recipe_doc" where
  "set_recipe n r =
     r\<lparr> rcp_name := Some (nr_name n), rcp_cuisine := nr_cuisine n,
        rcp_prepTime := Some (nr_prepTime n), rcp_cookTime := Some (nr_cookTime n),
        rcp_servings := Some (nr_servings n), rcp_ingredients := Some (nr_ingredients n),
        rcp_instructions := Some (nr_instructions n), rcp_tags := nr_tags n \<rparr>"

definition put_recipes_update :: "database \<Rightarrow> string \<Rightarrow> recipe_request \<Rightarrow> database \<times> outcome" where
  "put_recipes_update db recipeId r =
     (case validateRecipe db r of
        Failure e \<Rightarrow> (db, Responded 400 (Error e))
      | Success newRecipe \<Rightarrow>
          (case ObjectId_parse recipeId of
             None \<Rightarrow> (db, Responded 500 (Error ''Internal server error''))
           | Some oid \<Rightarrow>
               (if findOne_recipe db oid = None
                then (db, Responded 404 (Error ''Recipe not found''))
                else (db\<lparr>db_recipes :=
                          update_first (\<lambda>x. rcp_id x = oid) (set_recipe newRecipe) (db_recipes db)\<rparr>,
                      Responded 200 (Message ''Recipe has been updated successful'')))))"

definition delete_recipes_delete :: "database \<Rightarrow> string \<Rightarrow> database \<times> outcome" where
  "delete_recipes_delete db recipeId =
     (case ObjectId_parse recipeId of
        None \<Rightarrow> (db, Responded 500 (Error ''Internal Server Error''))
      | Some oid \<Rightarrow>
          (if findOne_recipe db oid = None then (db, Responded 404 (Error ''Not found''))
           else (db\<lparr>db_recipes := delete_first (\<lambda>x. rcp_id x = oid) (db_recipes db)\<rparr>,
                 Responded 200 (Message ''Deleted successfully''))))"

text \<open>
  \<open>POST /recipes/:id/reviews\<close>. \<open>fresh\<close> is the identifier that \<open>new ObjectId()\<close> makes
  for the review and \<open>now\<close> the time of \<open>new Date()\<close>. \<open>Number\<close> applied to a number
  gives that number.
\<close>

record review_request =
  rv_user :: "string option"
  rv_rating :: "js_number option"
  rv_comment :: "string option"

definition Number :: "js_number \<Rightarrow> js_number" where
  "Number n = n"

definition push_review :: "review \<Rightarrow> recipe_doc \<Rightarrow> recipe_doc" where
  "push_review v r =
     r\<lparr> rcp_reviews := (case rcp_reviews r of None \<Rightarrow> Some [v] | Some vs \<Rightarrow> Some (vs @ [v])) \<rparr>"

definition post_reviews :: "database \<Rightarrow> ObjectId \<Rightarrow> nat \<Rightarrow> string \<Rightarrow> review_request \<Rightarrow> database \<times> outcome" where
  "post_reviews db fresh now recipeId b =
     (if \<not> truthy_string (rv_user b) \<or> \<not> truthy_number (rv_rating b)
         \<or> \<not> truthy_string (rv_comment b)
      then (db, Responded 400 (Error ''Missing required fields''))
      else
        (let newReview =
               \<lparr> review_id = fresh, review_user = the (rv_user b),
                 review_rating = Number (the (rv_rating b)),
                 review_comment = the (rv_comment b), review_date = now \<rparr>
         in case ObjectId_parse recipeId of
              None \<Rightarrow> (db, Responded 500 (Error ''Internal server error''))
            | Some oid \<Rightarrow>
                (if findOne_recipe db oid = None
                 then (db, Responded 404 (Error ''Recipe not found''))
                 else (db\<lparr>db_recipes :=
                           update_first (\<lambda>x. rcp_id x = oid) (push_review newReview) (db_recipes db)\<rparr>,
                       Responded 201 (Created ''Review added successfully'' fresh)))))"

text \<open>
  \<open>findOne({name: v})\<close> for a field that may be absent: an absent value asks for a
  document without a name, and every cuisine document has one.
\<close>

definition findOne_cuisine_named :: "database \<Rightarrow> string option \<Rightarrow> cuisine_doc option" where
  "findOne_cuisine_named db v = (case v of None \<Rightarrow> None | Some c \<Rightarrow> findOne_cuisine db c)"

text \<open>
  \<open>POST /ai/recipes\<close>. The draft is what \<open>generateRecipe\<close> returns, the unchecked
  \<open>JSON.parse\<close> of the model's reply: \<open>None\<close> when the reply is not JSON (the call
  throws and the route does not catch it), otherwise an object of which every field may
  be absent, as in a request body. The route looks the cuisine up and answers 404 when
  there is none; it puts the whole cuisine document and the tag documents found for the
  draft's tag names into the draft and inserts it. Without a tags array the lookup
  \<open>find({name: {$in: tags}})\<close> throws, which the route does not catch either. \<open>fresh\<close>
  is the identifier that the insertion gives the record.
\<close>

definition post_ai_recipes :: "database \<Rightarrow> ObjectId \<Rightarrow> recipe_request option \<Rightarrow> database \<times> outcome" where
  "post_ai_recipes db fresh draft =
     (case draft of
        None \<Rightarrow> (db, Rejected)
      | Some newRecipe \<Rightarrow>
          (case findOne_cuisine_named db (req_cuisine newRecipe) of
             None \<Rightarrow> (db, Responded 404 (Error ''AI tried to use a cuisine that doesn't exist''))
           | Some cuisineDoc \<Rightarrow>
               (case req_tags newRecipe of
                  None \<Rightarrow> (db, Rejected)
                | Some tags \<Rightarrow>
                    (let tagDocs = find_tags_in db tags
                     in (db\<lparr>db_recipes := db_recipes db @
                             [\<lparr> rcp_id = fresh, rcp_name = req_name newRecipe,
                                rcp_cuisine = cuisineDoc,
                                rcp_prepTime = req_prepTime newRecipe,
                                rcp_cookTime = req_cookTime newRecipe,
                                rcp_servings = req_servings newRecipe,
                                rcp_ingredients = req_ingredients newRecipe,
                                rcp_instructions = req_instructions newRecipe,
                                rcp_tags = tagDocs, rcp_reviews = None \<rparr>]\<rparr>,
                         Responded 200 (RecipeId fresh))))))"



section \<open>Sample data\<close>

text \<open>A small catalogue and the requests of the specification's scenarios.\<close>

definition thai :: cuisine_doc where
  "thai =
     \<lparr> cuisine_id = ObjectId ''0000000000000000000000c1'', cuisine_name = ''Thai'',
       cuisine_more = [(''region'', JStr ''Asia'')] \<rparr>"

definition spicy :: tag_doc where
  "spicy = \<lparr> tag_id = ObjectId ''0000000000000000000000a1'', tag_name = ''spicy'' \<rparr>"

definition vegan :: tag_doc where
  "vegan = \<lparr> tag_id = ObjectId ''0000000000000000000000a2'', tag_name = ''vegan'' \<rparr>"

definition shop :: database where
  "shop = \<lparr> db_cuisines = [thai], db_tags = [spicy, vegan], db_recipes = [] \<rparr>"

definition tom_yum :: "string list \<Rightarrow> recipe_request" where
  "tom_yum ts =
     \<lparr> req_name = Some ''Tom Yum'', req_cuisine = Some ''Thai'', req_prepTime = Some 10,
       req_cookTime = Some 20, req_servings = Some 2,
       req_ingredients = Some [\<lparr> ing_name = ''shrimp'', ing_quantity = ''200'', ing_unit = ''g'' \<rparr>],
       req_instructions = Some [''Boil stock.''], req_tags = Some ts \<rparr>"

definition atlantis :: recipe_request where
  "atlantis = (tom_yum [''spicy''])\<lparr> req_cuisine := Some ''Atlantis'' \<rparr>"

definition tom_yum_normalized :: new_recipe where
  "tom_yum_normalized =
     \<lparr> nr_name = ''Tom Yum'', nr_cuisine = thai\<lparr> cuisine_more := [] \<rparr>, nr_prepTime = 10,
       nr_cookTime = 20,
       nr_servings = 2,
       nr_ingredients = [\<lparr> ing_name = ''shrimp'', ing_quantity = ''200'', ing_unit = ''g'' \<rparr>],
       nr_instructions = [''Boil stock.''], nr_tags = [spicy, vegan] \<rparr>"

definition dish :: "string list \<Rightarrow> string list \<Rightarrow> recipe_doc" where
  "dish names tag_names =
     \<lparr> rcp_id = ObjectId ''0000000000000000000000d1'', rcp_name = Some ''Dish'',
       rcp_cuisine = thai\<lparr> cuisine_more := [] \<rparr>,
       rcp_prepTime = Some 10, rcp_cookTime = Some 20, rcp_servings = Some 2,
       rcp_ingredients =
         Some (map (\<lambda>n. \<lparr> ing_name = n, ing_quantity = ''1'', ing_unit = '''' \<rparr>) names),
       rcp_instructions = Some [''Cook.''],
       rcp_tags = map (\<lambda>n. \<lparr> tag_id = ObjectId ''0000000000000000000000a9'', tag_name = n \<rparr>) tag_names,
       rcp_reviews = None \<rparr>"


definition kitchen :: database where
  "kitchen = shop\<lparr> db_recipes := [dish [''chicken'', ''onion''] [''spicy'']] \<rparr>"

definition five_stars :: review_request where
  "five_stars = \<lparr> rv_user = Some ''ann'', rv_rating = Some 5, rv_comment = Some ''Good'' \<rparr>"

definition five_hundred_stars :: review_request where
  "five_hundred_stars = five_stars\<lparr> rv_rating := Some 500 \<rparr>"





section \<open>Properties of the validator\<close>

lemma findOne_cuisine_None_iff:
  "findOne_cuisine db c = None \<longleftrightarrow> c \<notin> cuisine_name ` set (db_cuisines db)"
  by (auto simp: findOne_cuisine_def find_None_iff)

lemma findOne_cuisine_Some:
  "findOne_cuisine db c = Some d \<Longrightarrow> d \<in> set (db_cuisines db) \<and> cuisine_name d = c"
  by (auto simp: findOne_cuisine_def find_Some_iff)

text \<open>
  With unique names in a collection, a lookup by a set of names finds at most as many
  documents as there are names in the set.
\<close>

lemma length_filter_le_card:
  assumes "distinct (map f xs)" and "finite A"
  shows "length (filter (\<lambda>d. f d \<in> A) xs) \<le> card A"
proof -
  have d: "distinct (map f (filter (\<lambda>d. f d \<in> A) xs))"
    using assms(1) by (simp add: distinct_map_filter)
  have "length (filter (\<lambda>d. f d \<in> A) xs) = length (map f (filter (\<lambda>d. f d \<in> A) xs))"
    by simp
  also have "\<dots> = card (set (map f (filter (\<lambda>d. f d \<in> A) xs)))"
    using d by (simp only: distinct_card)
  also have "\<dots> \<le> card A"
    using assms(2) by (intro card_mono) auto
  finally show ?thesis .
qed

lemma duplicates_undercount:
  assumes "distinct (map tag_name (db_tags db))" and "\<not> distinct names"
  shows "length (find_tags_in db names) < length names"
proof -
  have "length (find_tags_in db names) \<le> card (set names)"
    unfolding find_tags_in_def using assms(1) by (rule length_filter_le_card) simp
  moreover have "card (set names) < length names"
    using assms(2) by (metis card_distinct card_length le_neq_implies_less)
  ultimately show ?thesis by simp
qed

lemma absent_name_undercount:
  assumes "distinct (map tag_name (db_tags db))" and "n \<in> set names"
    and "n \<notin> tag_name ` set (db_tags db)"
  shows "length (find_tags_in db names) < length names"
proof -
  have "find_tags_in db names = filter (\<lambda>d. tag_name d \<in> set names - {n}) (db_tags db)"
    unfolding find_tags_in_def using assms(3) by (intro filter_cong) auto
  then have "length (find_tags_in db names) \<le> card (set names - {n})"
    using length_filter_le_card [OF assms(1), of "set names - {n}"] by simp
  also have "\<dots> < card (set names)"
    using assms(2) by (intro card_Diff1_less) simp_all
  also have "\<dots> \<le> length names" by (rule card_length)
  finally show ?thesis .
qed

lemma tom_yum_present: "fields_present (tom_yum ts)"
  by (simp add: fields_present_def tom_yum_def truthy_string_def truthy_number_def truthy_array_def)

lemma tom_yum_cuisine: "findOne_cuisine shop (the (req_cuisine (tom_yum ts))) = Some thai"
  by (simp add: findOne_cuisine_def shop_def tom_yum_def thai_def)

lemma tom_yum_valid:
  "validateRecipe shop (tom_yum [''vegan'', ''spicy'']) = Success tom_yum_normalized"
  by (simp add: validateRecipe_def tom_yum_present tom_yum_cuisine Let_def tom_yum_normalized_def)
     (simp add: tom_yum_def find_tags_in_def shop_def spicy_def vegan_def thai_def)

text \<open>
  Claim C3. For a candidate whose fields are all present and whose cuisine resolves,
  \<open>validateRecipe\<close> fails with the invalid-tags error (the message
  \<open>One or more tags is invalid\<close>) exactly when the number of tag documents found differs
  from the number of requested names. With unique tag names in the vocabulary this is
  the case whenever a requested name is repeated, and whenever a requested name is not
  in the vocabulary.
\<close>

theorem validate_invalid_tags:
  assumes "fields_present r" and "findOne_cuisine db (the (req_cuisine r)) = Some c"
  shows "(validateRecipe db r = Failure ''One or more tags is invalid''
            \<longleftrightarrow> length (find_tags_in db (the (req_tags r))) \<noteq> length (the (req_tags r)))
         \<and> (distinct (map tag_name (db_tags db)) \<and> \<not> distinct (the (req_tags r))
              \<longrightarrow> validateRecipe db r = Failure ''One or more tags is invalid'')
         \<and> (distinct (map tag_name (db_tags db))
              \<and> (\<exists>n \<in> set (the (req_tags r)). n \<notin> tag_name ` set (db_tags db))
              \<longrightarrow> validateRecipe db r = Failure ''One or more tags is invalid'')"
proof -
  have iff: "validateRecipe db r = Failure ''One or more tags is invalid''
            \<longleftrightarrow> length (find_tags_in db (the (req_tags r))) \<noteq> length (the (req_tags r))"
    using assms by (simp add: validateRecipe_def Let_def)
  have dup: "validateRecipe db r = Failure ''One or more tags is invalid''"
    if "distinct (map tag_name (db_tags db))" "\<not> distinct (the (req_tags r))"
    using duplicates_undercount [OF that] iff by simp
  have absent: "validateRecipe db r = Failure ''One or more tags is invalid''"
    if "distinct (map tag_name (db_tags db))"
      "\<exists>n \<in> set (the (req_tags r)). n \<notin> tag_name ` set (db_tags db)"
    using absent_name_undercount [OF that(1)] that(2) iff by fastforce
  from iff dup absent show ?thesis by blast
qed

theorem validate_invalid_tags_witness:
  "fields_present (tom_yum [''spicy'', ''spicy''])
   \<and> findOne_cuisine shop (the (req_cuisine (tom_yum [''spicy'', ''spicy'']))) = Some thai
   \<and> length (find_tags_in shop [''spicy'', ''spicy'']) = 1
   \<and> validateRecipe shop (tom_yum [''spicy'', ''spicy'']) = Failure ''One or more tags is invalid''"
proof -
  have l: "length (find_tags_in shop [''spicy'', ''spicy'']) = 1"
    by (simp add: find_tags_in_def shop_def spicy_def vegan_def)
  have t: "the (req_tags (tom_yum [''spicy'', ''spicy''])) = [''spicy'', ''spicy'']"
    by (simp add: tom_yum_def)
  have "validateRecipe shop (tom_yum [''spicy'', ''spicy'']) = Failure ''One or more tags is invalid''"
    using validate_invalid_tags [OF tom_yum_present tom_yum_cuisine, THEN conjunct1,
        of "[''spicy'', ''spicy'']"] l
    by (simp add: t)
  then show ?thesis using l tom_yum_present tom_yum_cuisine by simp
qed

text \<open>
  Claim C6. For a candidate whose fields are all present and whose cuisine name is the
  name of no document of the cuisines collection, \<open>validateRecipe\<close> fails with the
  invalid-cuisine error (the message \<open>Invalid cuisine\<close>); the update route answers 400
  with that message and the create route answers 400, and both leave the database as it
  was.
\<close>

theorem validate_invalid_cuisine:
  assumes "fields_present r"
    and "the (req_cuisine r) \<notin> cuisine_name ` set (db_cuisines db)"
  shows "validateRecipe db r = Failure ''Invalid cuisine''
         \<and> put_recipes_update db recipeId r = (db, Responded 400 (Error ''Invalid cuisine''))
         \<and> post_recipes_create db fresh r = (db, Responded 400 (Error ''Error. Cuisine not found''))"
proof -
  have none: "findOne_cuisine db (the (req_cuisine r)) = None"
    using assms(2) by (simp add: findOne_cuisine_None_iff)
  have v: "validateRecipe db r = Failure ''Invalid cuisine''"
    using assms(1) none by (simp add: validateRecipe_def)
  have u: "put_recipes_update db recipeId r = (db, Responded 400 (Error ''Invalid cuisine''))"
    by (simp add: put_recipes_update_def v)
  have c: "post_recipes_create db fresh r = (db, Responded 400 (Error ''Error. Cuisine not found''))"
    using assms(1) none by (simp add: post_recipes_create_def)
  from v u c show ?thesis by simp
qed

theorem validate_invalid_cuisine_witness:
  "fields_present atlantis
   \<and> the (req_cuisine atlantis) \<notin> cuisine_name ` set (db_cuisines shop)
   \<and> validateRecipe shop atlantis = Failure ''Invalid cuisine''
   \<and> put_recipes_update shop ''695f64e320c0ab9c7a35125d'' atlantis
       = (shop, Responded 400 (Error ''Invalid cuisine''))"
proof -
  have p: "fields_present atlantis"
    by (simp add: atlantis_def fields_present_def tom_yum_def truthy_string_def
        truthy_number_def truthy_array_def)
  have a: "the (req_cuisine atlantis) \<notin> cuisine_name ` set (db_cuisines shop)"
    by (simp add: atlantis_def shop_def thai_def)
  show ?thesis
    using validate_invalid_cuisine [OF p a, of "''695f64e320c0ab9c7a35125d''"] p a by simp
qed

text \<open>What a successful validation returns, and what the create route stores then.\<close>

lemma validateRecipe_Success:
  assumes "validateRecipe db r = Success n"
  shows "(\<exists>c. findOne_cuisine db (the (req_cuisine r)) = Some c
              \<and> c \<in> set (db_cuisines db) \<and> Some (cuisine_name c) = req_cuisine r
              \<and> nr_cuisine n
                  = \<lparr> cuisine_id = cuisine_id c, cuisine_name = cuisine_name c,
                      cuisine_more = [] \<rparr>)
         \<and> nr_tags n = filter (\<lambda>d. tag_name d \<in> set (the (req_tags r))) (db_tags db)
         \<and> req_name r = Some (nr_name n) \<and> req_prepTime r = Some (nr_prepTime n)
         \<and> req_cookTime r = Some (nr_cookTime n) \<and> req_servings r = Some (nr_servings n)
         \<and> req_ingredients r = Some (nr_ingredients n)
         \<and> req_instructions r = Some (nr_instructions n)
         \<and> post_recipes_create db fresh r
             = (db\<lparr>db_recipes := db_recipes db @ [stored_recipe fresh n]\<rparr>,
                Responded 201 (Created ''Recipe created'' fresh))"
proof -
  from assms have p: "fields_present r"
    by (auto simp: validateRecipe_def split: if_splits)
  from assms p obtain c where c: "findOne_cuisine db (the (req_cuisine r)) = Some c"
    by (auto simp: validateRecipe_def split: option.splits)
  from assms p c have len: "length (find_tags_in db (the (req_tags r))) = length (the (req_tags r))"
    by (auto simp: validateRecipe_def Let_def split: if_splits)
  from assms p c len have n: "n =
      \<lparr> nr_name = the (req_name r),
        nr_cuisine = \<lparr> cuisine_id = cuisine_id c, cuisine_name = cuisine_name c,
                       cuisine_more = [] \<rparr>,
        nr_prepTime = the (req_prepTime r), nr_cookTime = the (req_cookTime r),
        nr_servings = the (req_servings r), nr_ingredients = the (req_ingredients r),
        nr_instructions = the (req_instructions r),
        nr_tags = find_tags_in db (the (req_tags r)) \<rparr>"
    by (simp add: validateRecipe_def Let_def)
  from p have some:
    "req_name r = Some (the (req_name r))" "req_cuisine r = Some (the (req_cuisine r))"
    "req_prepTime r = Some (the (req_prepTime r))" "req_cookTime r = Some (the (req_cookTime r))"
    "req_servings r = Some (the (req_servings r))"
    "req_ingredients r = Some (the (req_ingredients r))"
    "req_instructions r = Some (the (req_instructions r))"
    by (auto simp: fields_present_def truthy_string_def truthy_number_def truthy_array_def
        split: option.splits)
  have cuisine: "\<exists>c. findOne_cuisine db (the (req_cuisine r)) = Some c
              \<and> c \<in> set (db_cuisines db) \<and> Some (cuisine_name c) = req_cuisine r
              \<and> nr_cuisine n
                  = \<lparr> cuisine_id = cuisine_id c, cuisine_name = cuisine_name c,
                      cuisine_more = [] \<rparr>"
    using c findOne_cuisine_Some [OF c] some(2) by (simp add: n)
  have tags: "nr_tags n = filter (\<lambda>d. tag_name d \<in> set (the (req_tags r))) (db_tags db)"
    by (simp add: n find_tags_in_def)
  have carried: "req_name r = Some (nr_name n)" "req_prepTime r = Some (nr_prepTime n)"
    "req_cookTime r = Some (nr_cookTime n)" "req_servings r = Some (nr_servings n)"
    "req_ingredients r = Some (nr_ingredients n)"
    "req_instructions r = Some (nr_instructions n)"
    using some by (simp_all add: n)
  have create: "post_recipes_create db fresh r
             = (db\<lparr>db_recipes := db_recipes db @ [stored_recipe fresh n]\<rparr>,
                Responded 201 (Created ''Recipe created'' fresh))"
    using p c len some by (simp add: post_recipes_create_def Let_def stored_recipe_def n)
  show ?thesis
    by (intro conjI) (rule cuisine tags carried create)+
qed

text \<open>
  Claim C8. When \<open>validateRecipe\<close> succeeds, the cuisine of the normalized recipe is the
  identifier and name of the cuisine document found for the requested name, its tags
  are the tag documents found, in the order of the tags collection, and name, prepTime,
  cookTime, servings, ingredients and instructions are those of the candidate. The
  create route stores the same record under a new identifier.
\<close>

theorem validate_success:
  assumes "validateRecipe db r = Success n"
  shows "(\<exists>c. findOne_cuisine db (the (req_cuisine r)) = Some c
              \<and> c \<in> set (db_cuisines db) \<and> Some (cuisine_name c) = req_cuisine r
              \<and> nr_cuisine n
                  = \<lparr> cuisine_id = cuisine_id c, cuisine_name = cuisine_name c,
                      cuisine_more = [] \<rparr>)
         \<and> nr_tags n = filter (\<lambda>d. tag_name d \<in> set (the (req_tags r))) (db_tags db)
         \<and> req_name r = Some (nr_name n) \<and> req_prepTime r = Some (nr_prepTime n)
         \<and> req_cookTime r = Some (nr_cookTime n) \<and> req_servings r = Some (nr_servings n)
         \<and> req_ingredients r = Some (nr_ingredients n)
         \<and> req_instructions r = Some (nr_instructions n)
         \<and> post_recipes_create db fresh r
             = (db\<lparr>db_recipes := db_recipes db @ [stored_recipe fresh n]\<rparr>,
                Responded 201 (Created ''Recipe created'' fresh))"
  using assms by (rule validateRecipe_Success)

theorem validate_success_witness:
  "validateRecipe shop (tom_yum [''vegan'', ''spicy'']) = Success tom_yum_normalized
   \<and> nr_tags tom_yum_normalized
       = filter (\<lambda>d. tag_name d \<in> set (the (req_tags (tom_yum [''vegan'', ''spicy''])))) (db_tags shop)
   \<and> nr_tags tom_yum_normalized = [spicy, vegan]
   \<and> req_tags (tom_yum [''vegan'', ''spicy'']) = Some [''vegan'', ''spicy'']"
proof -
  have "nr_tags tom_yum_normalized
       = filter (\<lambda>d. tag_name d \<in> set (the (req_tags (tom_yum [''vegan'', ''spicy''])))) (db_tags shop)"
    by (rule validate_success [OF tom_yum_valid, THEN conjunct2, THEN conjunct1])
  moreover have "nr_tags tom_yum_normalized = [spicy, vegan]"
    by (simp add: tom_yum_normalized_def)
  moreover have "req_tags (tom_yum [''vegan'', ''spicy'']) = Some [''vegan'', ''spicy'']"
    by (simp add: tom_yum_def)
  ultimately show ?thesis using tom_yum_valid by simp
qed

section \<open>Properties of the filter builder\<close>

lemma plain_not_dot: "is_plain_char c \<Longrightarrow> c \<noteq> CHR ''.''"
  by (auto simp: is_plain_char_def is_syntax_char_def)

lemma compile_plain: "list_all is_plain_char p \<Longrightarrow> RegExp_compile p = Some (map Lit p)"
  by (induction p) (auto simp: plain_not_dot)

lemma match_here_Lit: "match_here (map Lit p) s = prefix (map to_lower p) (map to_lower s)"
proof (induction p arbitrary: s)
  case Nil
  then show ?case by simp
next
  case (Cons a p)
  then show ?case by (cases s) auto
qed

lemma re_search_Lit: "re_search (map Lit p) s = contains_ci s p"
proof (induction s)
  case Nil
  then show ?case by (cases p) (simp_all add: contains_ci_def)
next
  case (Cons c s)
  then show ?case
    by (simp add: contains_ci_def match_here_Lit sublist_Cons_right del: match_here.simps)
qed

lemma split_comma_nonempty: "split_comma s \<noteq> []"
  by (induction s) (auto split: list.splits)

lemma split_comma_chars: "w \<in> set (split_comma s) \<Longrightarrow> set w \<subseteq> set s"
proof (induction s arbitrary: w)
  case Nil
  then show ?case by simp
next
  case (Cons c s)
  show ?case
  proof (cases "c = CHR '',''")
    case True
    with Cons show ?thesis by auto
  next
    case False
    obtain v vs where v: "split_comma s = v # vs"
      using split_comma_nonempty [of s] by (cases "split_comma s") auto
    with False Cons.prems have "w = c # v \<or> w \<in> set vs" by auto
    then show ?thesis
    proof
      assume "w = c # v"
      moreover have "set v \<subseteq> set s" using Cons.IH [of v] v by simp
      ultimately show ?thesis by auto
    next
      assume "w \<in> set vs"
      then have "set w \<subseteq> set s" using Cons.IH [of w] v by simp
      then show ?thesis by auto
    qed
  qed
qed

lemma split_comma_plain:
  "list_all is_plain_char s \<Longrightarrow> list_all (list_all is_plain_char) (split_comma s)"
  using split_comma_chars by (fastforce simp: list_all_iff)

lemma operand_matches_plain:
  assumes "list_all is_plain_char n"
  shows "operand_matches vals (RegExp_i n) = Some (list_ex (\<lambda>v. contains_ci v n) vals)"
proof -
  have "re_search (map Lit n) = (\<lambda>v. contains_ci v n)"
    by (rule ext) (rule re_search_Lit)
  with assms show ?thesis
    by (simp add: operand_matches_def compile_plain)
qed

lemma those_regexps:
  "list_all (list_all is_plain_char) names \<Longrightarrow>
     those (map (operand_matches vals) (map RegExp_i names))
       = Some (map (\<lambda>n. list_ex (\<lambda>v. contains_ci v n) vals) names)"
  by (induction names) (simp_all add: operand_matches_plain)

lemma all_matches_regexps:
  assumes "list_all (list_all is_plain_char) names"
  shows "all_matches (map RegExp_i names) vals
           = Some (names \<noteq> [] \<and> list_all (\<lambda>n. list_ex (\<lambda>v. contains_ci v n) vals) names)"
  unfolding all_matches_def those_regexps [OF assms] by (simp add: list_all_iff)

lemma ingredients_clause_search:
  assumes "s \<noteq> []" and "list_all is_plain_char s"
  shows "ingredients_clause (search_criteria name tags (Some s)) r
           = Some (spec_ingredients_match (split_comma s) r)"
proof -
  have "crit_ingredients_name (search_criteria name tags (Some s))
          = Some (map RegExp_i (split_comma s))"
    using assms(1) by (simp add: search_criteria_def truthy_string_def)
  then show ?thesis
    by (simp add: ingredients_clause_def all_matches_regexps [OF split_comma_plain [OF assms(2)]]
        split_comma_nonempty spec_ingredients_match_def list_ex_iff list_all_iff)
qed

lemma absent_clauses:
  "\<not> truthy_string name \<Longrightarrow> name_clause (search_criteria name tags ings) r = Some True"
  "cuisine_clause (search_criteria name tags ings) r = Some True"
  "\<not> truthy_string tags \<Longrightarrow> tags_clause (search_criteria name tags ings) r = Some True"
  "\<not> truthy_string ings \<Longrightarrow> ingredients_clause (search_criteria name tags ings) r = Some True"
  by (simp_all add: search_criteria_def name_clause_def cuisine_clause_def tags_clause_def
      ingredients_clause_def)

text \<open>
  Claim C4, as amended. The ingredient names are the pieces of the \<open>ingredients\<close>
  parameter between commas, and each becomes a case-insensitive regular expression. When
  the parameter is not empty and all its characters are ASCII characters other than the
  syntax characters of regular expressions, the predicate holds for a recipe exactly
  when, for every supplied name, some ingredient of the recipe has a name that contains
  it as a substring, letter case ignored. The example of the specification is the
  witness.
\<close>

theorem ingredients_predicate:
  assumes "s \<noteq> []" and "list_all is_plain_char s"
  shows "ingredients_clause (search_criteria name tags (Some s)) r
           = Some (spec_ingredients_match (split_comma s) r)
         \<and> criteria_matches (search_criteria None None (Some s)) r
           = Some (spec_ingredients_match (split_comma s) r)"
  using ingredients_clause_search [OF assms]
  by (simp add: criteria_matches_def absent_clauses truthy_string_def and_option_def)

theorem ingredients_predicate_witness:
  "''chicken,garlic'' \<noteq> [] \<and> list_all is_plain_char ''chicken,garlic''
   \<and> split_comma ''chicken,garlic'' = [''chicken'', ''garlic'']
   \<and> criteria_matches (search_criteria None None (Some ''chicken,garlic''))
        (dish [''chicken breast'', ''garlic'', ''salt''] []) = Some True
   \<and> criteria_matches (search_criteria None None (Some ''chicken,garlic''))
        (dish [''chicken'', ''onion''] []) = Some False"
proof -
  have a: "''chicken,garlic'' \<noteq> []" by simp
  have b: "list_all is_plain_char ''chicken,garlic''"
    by (simp add: is_plain_char_def is_syntax_char_def)
  have c: "split_comma ''chicken,garlic'' = [''chicken'', ''garlic'']" by simp
  have d: "spec_ingredients_match [''chicken'', ''garlic''] (dish [''chicken breast'', ''garlic'', ''salt''] [])"
    by code_simp
  have e: "\<not> spec_ingredients_match [''chicken'', ''garlic''] (dish [''chicken'', ''onion''] [])"
    by code_simp
  show ?thesis
    using ingredients_predicate [OF a b, THEN conjunct2, of "dish [''chicken breast'', ''garlic'', ''salt''] []"]
      ingredients_predicate [OF a b, THEN conjunct2, of "dish [''chicken'', ''onion''] []"]
      b d e
    by (simp only: c) simp
qed

text \<open>
  The supplied name \<open>.\<close> is read as a pattern: it matches a recipe none of whose
  ingredient names contains a dot.
\<close>

theorem ingredients_predicate_counterexample:
  "criteria_matches (search_criteria None None (Some ''.'')) (dish [''chicken'', ''onion''] [])
     = Some True
   \<and> \<not> spec_ingredients_match (split_comma ''.'') (dish [''chicken'', ''onion''] [])"
proof -
  have "criteria_matches (search_criteria None None (Some ''.'')) (dish [''chicken'', ''onion''] [])
     = Some True"
    by (simp add: criteria_matches_def search_criteria_def name_clause_def cuisine_clause_def
        tags_clause_def ingredients_clause_def truthy_string_def and_option_def all_matches_def
        operand_matches_def dish_def ingredient_names_def)
  moreover have "\<not> spec_ingredients_match (split_comma ''.'') (dish [''chicken'', ''onion''] [])"
    by code_simp
  ultimately show ?thesis by simp
qed

text \<open>
  Claim C7. Without any of the three parameters the query document is the empty one and
  it matches every recipe. A parameter that is absent or the empty string sets no key,
  and its clause holds for every recipe.
\<close>

theorem empty_predicate:
  "search_criteria None None None = empty_criteria
   \<and> criteria_matches (search_criteria None None None) r = Some True
   \<and> (\<not> truthy_string name \<longrightarrow>
        crit_name (search_criteria name tags ings) = None
        \<and> name_clause (search_criteria name tags ings) r = Some True)
   \<and> (\<not> truthy_string tags \<longrightarrow>
        crit_tags_name (search_criteria name tags ings) = None
        \<and> tags_clause (search_criteria name tags ings) r = Some True)
   \<and> (\<not> truthy_string ings \<longrightarrow>
        crit_ingredients_name (search_criteria name tags ings) = None
        \<and> ingredients_clause (search_criteria name tags ings) r = Some True)"
  by (simp add: criteria_matches_def absent_clauses truthy_string_def and_option_def)
     (simp add: search_criteria_def empty_criteria_def truthy_string_def)

theorem empty_predicate_witness:
  "\<not> truthy_string (Some '''') \<and> \<not> truthy_string None
   \<and> criteria_matches (search_criteria None None None) (dish [''chicken'', ''onion''] [''spicy''])
       = Some True
   \<and> criteria_matches (search_criteria (Some '''') (Some '''') (Some ''''))
        (dish [''chicken'', ''onion''] [''spicy'']) = Some True"
proof -
  have f: "\<not> truthy_string (Some '''')" "\<not> truthy_string None"
    by (simp_all add: truthy_string_def)
  note e = empty_predicate [of "dish [''chicken'', ''onion''] [''spicy'']" "Some ''''" "Some ''''" "Some ''''"]
  from e f have "name_clause (search_criteria (Some '''') (Some '''') (Some '''')) (dish [''chicken'', ''onion''] [''spicy'']) = Some True"
    "tags_clause (search_criteria (Some '''') (Some '''') (Some '''')) (dish [''chicken'', ''onion''] [''spicy'']) = Some True"
    "ingredients_clause (search_criteria (Some '''') (Some '''') (Some '''')) (dish [''chicken'', ''onion''] [''spicy'']) = Some True"
    by simp_all
  then have "criteria_matches (search_criteria (Some '''') (Some '''') (Some ''''))
        (dish [''chicken'', ''onion''] [''spicy'']) = Some True"
    by (simp add: criteria_matches_def absent_clauses(2) and_option_def)
  then show ?thesis
    using f e [THEN conjunct2, THEN conjunct1] by (intro conjI)
qed

section \<open>The two search routes compared\<close>














section \<open>Properties of the routes\<close>

lemma find_update_first:
  assumes "\<And>x. P (f x) = P x"
  shows "find P (update_first P f xs) = map_option f (find P xs)"
  by (induction xs) (simp_all add: assms)

lemma findOne_recipe_pushed:
  "findOne_recipe
     (db\<lparr>db_recipes := update_first (\<lambda>x. rcp_id x = oid) (push_review v) (db_recipes db)\<rparr>) oid
   = map_option (push_review v) (findOne_recipe db oid)"
  by (simp add: findOne_recipe_def find_update_first push_review_def)

text \<open>
  Claim C5. For a record identifier that is not in the identifier format, the detail
  route answers 400 with the message \<open>Invalid recipe ID format.\<close>. The delete route,
  the review route (with a complete body) and the update route (with a valid body)
  answer 500 for such an identifier, not 400, and leave the database as it was.
\<close>

theorem malformed_id_status:
  assumes "ObjectId_parse recipeId = None"
  shows "get_recipes_detail db fresh (Some recipeId)
           = Responded 400 (Error ''Invalid recipe ID format.'')
         \<and> delete_recipes_delete db recipeId = (db, Responded 500 (Error ''Internal Server Error''))
         \<and> (truthy_string (rv_user b) \<and> truthy_number (rv_rating b) \<and> truthy_string (rv_comment b)
              \<longrightarrow> post_reviews db fresh now recipeId b
                    = (db, Responded 500 (Error ''Internal server error'')))
         \<and> (validateRecipe db r = Success n
              \<longrightarrow> put_recipes_update db recipeId r
                    = (db, Responded 500 (Error ''Internal server error'')))"
  using assms
  by (simp add: get_recipes_detail_def delete_recipes_delete_def post_reviews_def
      put_recipes_update_def Let_def)

theorem malformed_id_status_witness:
  "ObjectId_parse ''xyz'' = None
   \<and> get_recipes_detail kitchen (ObjectId ''0000000000000000000000f1'') (Some ''xyz'')
       = Responded 400 (Error ''Invalid recipe ID format.'')
   \<and> delete_recipes_delete kitchen ''xyz'' = (kitchen, Responded 500 (Error ''Internal Server Error''))
   \<and> post_reviews kitchen (ObjectId ''0000000000000000000000f1'') 7 ''xyz'' five_stars
       = (kitchen, Responded 500 (Error ''Internal server error''))
   \<and> put_recipes_update shop ''xyz'' (tom_yum [''vegan'', ''spicy''])
       = (shop, Responded 500 (Error ''Internal server error''))"
proof -
  have a: "ObjectId_parse ''xyz'' = None" by (simp add: ObjectId_parse_def)
  have u: "put_recipes_update shop ''xyz'' (tom_yum [''vegan'', ''spicy''])
       = (shop, Responded 500 (Error ''Internal server error''))"
    using malformed_id_status [OF a, THEN conjunct2, THEN conjunct2, THEN conjunct2, THEN mp,
        OF tom_yum_valid]
    by simp
  have b: "truthy_string (rv_user five_stars) \<and> truthy_number (rv_rating five_stars)
           \<and> truthy_string (rv_comment five_stars)"
    by (simp add: five_stars_def truthy_string_def truthy_number_def)
  note t = malformed_id_status [OF a, of kitchen "ObjectId ''0000000000000000000000f1''" five_stars 7]
  show ?thesis
    using a b u t [THEN conjunct1] t [THEN conjunct2, THEN conjunct1]
      t [THEN conjunct2, THEN conjunct2, THEN conjunct1]
    by (intro conjI) simp_all
qed

text \<open>A well-formed identifier of no recipe is answered with 404.\<close>

lemma wellformed_id_not_found:
  assumes "ObjectId_parse recipeId = Some oid" and "findOne_recipe db oid = None"
  shows "get_recipes_detail db fresh (Some recipeId) = Responded 404 (Error ''recipe not found.'')
         \<and> delete_recipes_delete db recipeId = (db, Responded 404 (Error ''Not found''))"
  using assms by (simp add: get_recipes_detail_def delete_recipes_delete_def)

text \<open>
  Claim C10. A review whose rating is the number 0, or whose comment is the empty
  string, is rejected with 400 and the message \<open>Missing required fields\<close>. With a user
  and a comment that are not empty and any other number as rating, whatever its size or
  sign, and the identifier of a stored recipe, the route answers 201 and the recipe's
  reviews are the former ones followed by a review with that user, rating and comment,
  the new review identifier and the time of the request; nothing else changes in the
  recipe, and the cuisines and tags stay as they were.
\<close>

theorem review_creation:
  "(rv_rating b = Some 0 \<or> rv_comment b = Some [] \<longrightarrow>
      post_reviews db fresh now recipeId b = (db, Responded 400 (Error ''Missing required fields'')))
   \<and> (rv_user b = Some u \<and> u \<noteq> [] \<and> rv_rating b = Some x \<and> x \<noteq> 0
        \<and> rv_comment b = Some c \<and> c \<noteq> []
        \<and> ObjectId_parse recipeId = Some oid \<and> findOne_recipe db oid = Some rcp \<longrightarrow>
      (\<exists>db'. post_reviews db fresh now recipeId b
                = (db', Responded 201 (Created ''Review added successfully'' fresh))
             \<and> db_cuisines db' = db_cuisines db \<and> db_tags db' = db_tags db
             \<and> (\<exists>rcp'. findOne_recipe db' oid = Some rcp'
                   \<and> rcp_reviews rcp'
                       = Some ((case rcp_reviews rcp of None \<Rightarrow> [] | Some vs \<Rightarrow> vs)
                               @ [\<lparr> review_id = fresh, review_user = u, review_rating = x,
                                    review_comment = c, review_date = now \<rparr>])
                   \<and> rcp' = rcp\<lparr> rcp_reviews := rcp_reviews rcp' \<rparr>)))"
proof -
  have reject: "post_reviews db fresh now recipeId b
                  = (db, Responded 400 (Error ''Missing required fields''))"
    if "rv_rating b = Some 0 \<or> rv_comment b = Some []"
    using that by (auto simp: post_reviews_def truthy_number_def truthy_string_def)
  have accept: "\<exists>db'. post_reviews db fresh now recipeId b
                = (db', Responded 201 (Created ''Review added successfully'' fresh))
             \<and> db_cuisines db' = db_cuisines db \<and> db_tags db' = db_tags db
             \<and> (\<exists>rcp'. findOne_recipe db' oid = Some rcp'
                   \<and> rcp_reviews rcp'
                       = Some ((case rcp_reviews rcp of None \<Rightarrow> [] | Some vs \<Rightarrow> vs)
                               @ [\<lparr> review_id = fresh, review_user = u, review_rating = x,
                                    review_comment = c, review_date = now \<rparr>])
                   \<and> rcp' = rcp\<lparr> rcp_reviews := rcp_reviews rcp' \<rparr>)"
    if h: "rv_user b = Some u" "u \<noteq> []" "rv_rating b = Some x" "x \<noteq> 0"
      "rv_comment b = Some c" "c \<noteq> []"
      "ObjectId_parse recipeId = Some oid" "findOne_recipe db oid = Some rcp"
  proof -
    let ?v = "\<lparr> review_id = fresh, review_user = u, review_rating = x,
                review_comment = c, review_date = now \<rparr>"
    let ?db' = "db\<lparr>db_recipes := update_first (\<lambda>x. rcp_id x = oid) (push_review ?v) (db_recipes db)\<rparr>"
    have p: "post_reviews db fresh now recipeId b
               = (?db', Responded 201 (Created ''Review added successfully'' fresh))"
      using h by (simp add: post_reviews_def truthy_number_def truthy_string_def Number_def)
    have f: "findOne_recipe ?db' oid = Some (push_review ?v rcp)"
      using h(8) by (simp add: findOne_recipe_pushed)
    have r: "rcp_reviews (push_review ?v rcp)
               = Some ((case rcp_reviews rcp of None \<Rightarrow> [] | Some vs \<Rightarrow> vs) @ [?v])"
      by (simp add: push_review_def split: option.splits)
    have k: "push_review ?v rcp = rcp\<lparr> rcp_reviews := rcp_reviews (push_review ?v rcp) \<rparr>"
      by (simp add: push_review_def)
    from p f r k show ?thesis by (intro exI [of _ ?db']) simp
  qed
  from reject accept show ?thesis by blast
qed

theorem review_creation_witness:
  "post_reviews kitchen (ObjectId ''0000000000000000000000f1'') 7 ''0000000000000000000000D1''
       (five_stars\<lparr> rv_rating := Some 0 \<rparr>)
     = (kitchen, Responded 400 (Error ''Missing required fields''))
   \<and> snd (post_reviews kitchen (ObjectId ''0000000000000000000000f1'') 7
            ''0000000000000000000000D1'' five_hundred_stars)
     = Responded 201 (Created ''Review added successfully'' (ObjectId ''0000000000000000000000f1''))
   \<and> map_option rcp_reviews
        (findOne_recipe
           (fst (post_reviews kitchen (ObjectId ''0000000000000000000000f1'') 7
                   ''0000000000000000000000D1'' five_hundred_stars))
           (ObjectId ''0000000000000000000000d1''))
     = Some (Some [\<lparr> review_id = ObjectId ''0000000000000000000000f1'', review_user = ''ann'',
                      review_rating = 500, review_comment = ''Good'', review_date = 7 \<rparr>])"
proof -
  let ?f = "ObjectId ''0000000000000000000000f1''"
  let ?d = "dish [''chicken'', ''onion''] [''spicy'']"
  have zero: "rv_rating (five_stars\<lparr> rv_rating := Some 0 \<rparr>) = Some 0" by simp
  have a: "post_reviews kitchen ?f 7 ''0000000000000000000000D1'' (five_stars\<lparr> rv_rating := Some 0 \<rparr>)
     = (kitchen, Responded 400 (Error ''Missing required fields''))"
    using review_creation [THEN conjunct1, of "five_stars\<lparr> rv_rating := Some 0 \<rparr>" kitchen ?f 7
        "''0000000000000000000000D1''"] zero
    by simp
  have h: "rv_user five_hundred_stars = Some ''ann'' \<and> ''ann'' \<noteq> []
        \<and> rv_rating five_hundred_stars = Some 500 \<and> (500 :: rat) \<noteq> 0
        \<and> rv_comment five_hundred_stars = Some ''Good'' \<and> ''Good'' \<noteq> []
        \<and> ObjectId_parse ''0000000000000000000000D1'' = Some (ObjectId ''0000000000000000000000d1'')
        \<and> findOne_recipe kitchen (ObjectId ''0000000000000000000000d1'') = Some ?d"
    by (simp add: five_hundred_stars_def five_stars_def ObjectId_parse_def is_hex_digit_def
        to_lower_def findOne_recipe_def kitchen_def dish_def)
  have old: "rcp_reviews ?d = None" by (simp add: dish_def)
  obtain db' rcp' where
    p: "post_reviews kitchen ?f 7 ''0000000000000000000000D1'' five_hundred_stars
          = (db', Responded 201 (Created ''Review added successfully'' ?f))"
    and f: "findOne_recipe db' (ObjectId ''0000000000000000000000d1'') = Some rcp'"
    and r: "rcp_reviews rcp'
              = Some ((case rcp_reviews ?d of None \<Rightarrow> [] | Some vs \<Rightarrow> vs)
                      @ [\<lparr> review_id = ?f, review_user = ''ann'', review_rating = 500,
                           review_comment = ''Good'', review_date = 7 \<rparr>])"
    using review_creation [THEN conjunct2, THEN mp, OF h] by blast
  from p f r old a show ?thesis by simp
qed

lemma validateRecipe_Failure:
  assumes "validateRecipe db r = Failure e"
  shows "e = ''Missing fields'' \<and> \<not> fields_present r
         \<or> e = ''Invalid cuisine'' \<and> fields_present r
             \<and> findOne_cuisine db (the (req_cuisine r)) = None
         \<or> e = ''One or more tags is invalid'' \<and> fields_present r
             \<and> length (find_tags_in db (the (req_tags r))) \<noteq> length (the (req_tags r))"
  using assms
  by (auto simp: validateRecipe_def Let_def split: if_splits option.splits)

text \<open>
  Claim C1. The route \<open>POST /ai/recipes\<close> does not run the validator on the draft. When
  the draft's cuisine is the name of no cuisine document it answers 404 and inserts
  nothing. When the cuisine is found and the draft has a tags array, it inserts the
  draft with the cuisine document and with the tag documents found for the tag names,
  in collection order, and answers 200, whatever the validator says about the draft: a
  draft with a found cuisine that fails validation, for a missing field or for the tag
  count, is inserted all the same.
\<close>

theorem post_ai_recipes_unvalidated:
  "(findOne_cuisine_named db (req_cuisine d) = None \<longrightarrow>
      post_ai_recipes db fresh (Some d)
        = (db, Responded 404 (Error ''AI tried to use a cuisine that doesn't exist'')))
   \<and> (findOne_cuisine_named db (req_cuisine d) = Some c \<and> req_tags d = Some ts \<longrightarrow>
        post_ai_recipes db fresh (Some d)
          = (db\<lparr>db_recipes := db_recipes db @
                 [\<lparr> rcp_id = fresh, rcp_name = req_name d, rcp_cuisine = c,
                    rcp_prepTime = req_prepTime d, rcp_cookTime = req_cookTime d,
                    rcp_servings = req_servings d, rcp_ingredients = req_ingredients d,
                    rcp_instructions = req_instructions d,
                    rcp_tags = filter (\<lambda>t. tag_name t \<in> set ts) (db_tags db),
                    rcp_reviews = None \<rparr>]\<rparr>,
             Responded 200 (RecipeId fresh)))
   \<and> (findOne_cuisine_named db (req_cuisine d) = Some c \<and> req_tags d = Some ts
        \<and> validateRecipe db d = Failure e \<longrightarrow>
        (e = ''Missing fields'' \<or> e = ''One or more tags is invalid'')
        \<and> length (db_recipes (fst (post_ai_recipes db fresh (Some d))))
            = Suc (length (db_recipes db))
        \<and> snd (post_ai_recipes db fresh (Some d)) = Responded 200 (RecipeId fresh))"
proof -
  have absent: "post_ai_recipes db fresh (Some d)
        = (db, Responded 404 (Error ''AI tried to use a cuisine that doesn't exist''))"
    if "findOne_cuisine_named db (req_cuisine d) = None"
    using that by (simp add: post_ai_recipes_def)
  have stored: "post_ai_recipes db fresh (Some d)
          = (db\<lparr>db_recipes := db_recipes db @
                 [\<lparr> rcp_id = fresh, rcp_name = req_name d, rcp_cuisine = c,
                    rcp_prepTime = req_prepTime d, rcp_cookTime = req_cookTime d,
                    rcp_servings = req_servings d, rcp_ingredients = req_ingredients d,
                    rcp_instructions = req_instructions d,
                    rcp_tags = filter (\<lambda>t. tag_name t \<in> set ts) (db_tags db),
                    rcp_reviews = None \<rparr>]\<rparr>,
             Responded 200 (RecipeId fresh))"
    if "findOne_cuisine_named db (req_cuisine d) = Some c" "req_tags d = Some ts"
    using that by (simp add: post_ai_recipes_def Let_def find_tags_in_def)
  have message: "e = ''Missing fields'' \<or> e = ''One or more tags is invalid''"
    if c: "findOne_cuisine_named db (req_cuisine d) = Some c"
      and v: "validateRecipe db d = Failure e"
  proof -
    from c obtain name where "req_cuisine d = Some name" "findOne_cuisine db name = Some c"
      by (cases "req_cuisine d") (simp_all add: findOne_cuisine_named_def)
    then have "findOne_cuisine db (the (req_cuisine d)) \<noteq> None" by simp
    with validateRecipe_Failure [OF v] show ?thesis by blast
  qed
  have inserted: "length (db_recipes (fst (post_ai_recipes db fresh (Some d))))
            = Suc (length (db_recipes db))
        \<and> snd (post_ai_recipes db fresh (Some d)) = Responded 200 (RecipeId fresh)"
    if "findOne_cuisine_named db (req_cuisine d) = Some c" "req_tags d = Some ts"
    by (simp add: stored [OF that])
  from absent stored message inserted show ?thesis by blast
qed

theorem post_ai_recipes_unvalidated_witness:
  "findOne_cuisine_named shop (req_cuisine (tom_yum [''spicy'', ''umami''])) = Some thai
   \<and> req_tags (tom_yum [''spicy'', ''umami'']) = Some [''spicy'', ''umami'']
   \<and> validateRecipe shop (tom_yum [''spicy'', ''umami'']) = Failure ''One or more tags is invalid''
   \<and> post_recipes_create shop (ObjectId ''0000000000000000000000f1'') (tom_yum [''spicy'', ''umami''])
       = (shop, Responded 400 (Error ''One or more tags is invalid''))
   \<and> post_ai_recipes shop (ObjectId ''0000000000000000000000f1'')
        (Some (tom_yum [''spicy'', ''umami'']))
       = (shop\<lparr>db_recipes :=
            [(stored_recipe (ObjectId ''0000000000000000000000f1'') tom_yum_normalized)
               \<lparr> rcp_cuisine := thai, rcp_tags := [spicy] \<rparr>]\<rparr>,
          Responded 200 (RecipeId (ObjectId ''0000000000000000000000f1'')))
   \<and> findOne_cuisine_named shop (req_cuisine atlantis) = None
   \<and> post_ai_recipes shop (ObjectId ''0000000000000000000000f1'') (Some atlantis)
       = (shop, Responded 404 (Error ''AI tried to use a cuisine that doesn't exist''))"
proof -
  let ?d = "tom_yum [''spicy'', ''umami'']"
  let ?f = "ObjectId ''0000000000000000000000f1''"
  have c: "findOne_cuisine_named shop (req_cuisine ?d) = Some thai"
    by (simp add: findOne_cuisine_named_def findOne_cuisine_def shop_def tom_yum_def thai_def)
  have t: "req_tags ?d = Some [''spicy'', ''umami'']"
    by (simp add: tom_yum_def)
  have v: "validateRecipe shop ?d = Failure ''One or more tags is invalid''"
    by (simp add: validateRecipe_def tom_yum_present tom_yum_cuisine Let_def)
       (simp add: tom_yum_def find_tags_in_def shop_def spicy_def vegan_def)
  have k: "post_recipes_create shop ?f ?d = (shop, Responded 400 (Error ''One or more tags is invalid''))"
    by (simp add: post_recipes_create_def tom_yum_present tom_yum_cuisine Let_def)
       (simp add: tom_yum_def find_tags_in_def shop_def spicy_def vegan_def)
  have n: "findOne_cuisine_named shop (req_cuisine atlantis) = None"
    by (simp add: findOne_cuisine_named_def findOne_cuisine_def shop_def atlantis_def thai_def)
  have s: "post_ai_recipes shop ?f (Some ?d)
       = (shop\<lparr>db_recipes :=
            [(stored_recipe ?f tom_yum_normalized)\<lparr> rcp_cuisine := thai, rcp_tags := [spicy] \<rparr>]\<rparr>,
          Responded 200 (RecipeId ?f))"
    unfolding post_ai_recipes_unvalidated [THEN conjunct2, THEN conjunct1, THEN mp, OF conjI, OF c t]
    by (simp add: shop_def tom_yum_def stored_recipe_def tom_yum_normalized_def spicy_def vegan_def)
  have a: "post_ai_recipes shop ?f (Some atlantis)
       = (shop, Responded 404 (Error ''AI tried to use a cuisine that doesn't exist''))"
    by (rule post_ai_recipes_unvalidated [THEN conjunct1, THEN mp, OF n])
  show ?thesis
    by (intro conjI) (rule c t v k s n a)+
qed

section \<open>Properties of the translator\<close>















end
